theory Spec2Isabelle
  imports Complex_Main "HOL-Library.AList" "HOL-Library.List_Lexorder" "HOL-Library.Char_ord"
begin

section \<open>Values of the input file\<close>

text \<open>
  The script \<^verbatim>\<open>scripts/histogram_avg_hourly_per_site_day.py\<close> reads a JSON document with
  \<^verbatim>\<open>json.load\<close> and works on the Python values it yields.

  A Python float is modelled by \<open>pyfloat\<close>: a finite binary64 value is represented by its
  exact rational value, next to the three special values that \<^verbatim>\<open>json.load\<close> can produce
  (\<^verbatim>\<open>NaN\<close>, \<^verbatim>\<open>Infinity\<close>, \<^verbatim>\<open>-Infinity\<close>; a literal such as \<^verbatim>\<open>1e999\<close> also reads as infinity).
  Arithmetic on finite values is exact: the rounding of binary64 is not modelled.
\<close>

datatype pyfloat = Fin rat | PInf | NInf | NaN

datatype json =
    JNull
  | JBool bool
  | JInt int
  | JFloat pyfloat
  | JStr string
  | JList "json list"
  | JObj "(string \<times> json) list"

text \<open>Exceptions are values; \<open>Inl e\<close> is a raised exception.\<close>

datatype error =
  ValueError | KeyError | TypeError | OverflowError | ZeroDivisionError | StatisticsError

subsection \<open>Float operations\<close>

text \<open>\<^verbatim>\<open>a + b\<close> on floats.\<close>

fun fadd :: "pyfloat \<Rightarrow> pyfloat \<Rightarrow> pyfloat" where
  "fadd (Fin a) (Fin b) = Fin (a + b)"
| "fadd NaN y = NaN"
| "fadd x NaN = NaN"
| "fadd PInf NInf = NaN"
| "fadd NInf PInf = NaN"
| "fadd PInf y = PInf"
| "fadd x PInf = PInf"
| "fadd NInf y = NInf"
| "fadd x NInf = NInf"

text \<open>\<^verbatim>\<open>a < b\<close> on floats: every comparison with NaN is false.\<close>

fun flt :: "pyfloat \<Rightarrow> pyfloat \<Rightarrow> bool" where
  "flt (Fin a) (Fin b) = (a < b)"
| "flt NaN y = False"
| "flt x NaN = False"
| "flt x NInf = False"
| "flt PInf y = False"
| "flt NInf y = True"
| "flt x PInf = True"

text \<open>\<^verbatim>\<open>a <= b\<close> on floats.\<close>

fun fle :: "pyfloat \<Rightarrow> pyfloat \<Rightarrow> bool" where
  "fle (Fin a) (Fin b) = (a \<le> b)"
| "fle NaN y = False"
| "fle x NaN = False"
| "fle NInf y = True"
| "fle x PInf = True"
| "fle x NInf = False"
| "fle PInf y = False"

text \<open>
  \<^verbatim>\<open>a / d\<close> for a float \<open>a\<close> and a finite divisor \<open>d\<close> (an int or a finite float):
  division by zero raises.
\<close>

definition fdiv :: "pyfloat \<Rightarrow> rat \<Rightarrow> error + pyfloat" where
  "fdiv x d =
     (if d = 0 then Inl ZeroDivisionError
      else Inr (case x of
                  Fin a \<Rightarrow> Fin (a / d)
                | NaN \<Rightarrow> NaN
                | PInf \<Rightarrow> (if 0 < d then PInf else NInf)
                | NInf \<Rightarrow> (if 0 < d then NInf else PInf)))"

text \<open>
  \<^verbatim>\<open>float(i)\<close> for an int: it raises OverflowError when \<open>i\<close> rounds beyond the largest
  binary64 value.
\<close>

definition float_of_int :: "int \<Rightarrow> error + pyfloat" where
  "float_of_int i =
     (if \<bar>i\<bar> < 2 ^ 1024 - 2 ^ 970 then Inr (Fin (of_int i)) else Inl OverflowError)"

section \<open>Dates and times\<close>

text \<open>
  A \<^verbatim>\<open>datetime\<close> object: its calendar fields and its \<^verbatim>\<open>tzinfo\<close>, which is either absent
  (a naive value) or a fixed offset from UTC, kept in microseconds.
\<close>

record datetime =
  dt_year :: int
  dt_month :: int
  dt_day :: int
  dt_hour :: int
  dt_minute :: int
  dt_second :: int
  dt_microsecond :: int
  dt_tzinfo :: "int option"

definition is_leap :: "int \<Rightarrow> bool" where
  "is_leap y = (if y mod 100 = 0 then y mod 400 = 0 else y mod 4 = 0)"

definition days_in_month :: "int \<Rightarrow> int \<Rightarrow> int" where
  "days_in_month y m =
     (if m = 2 then (if is_leap y then 29 else 28)
      else if m = 4 \<or> m = 6 \<or> m = 9 \<or> m = 11 then 30 else 31)"

text \<open>
  The constructor \<^verbatim>\<open>datetime(y, m, d, hh, mm, ss, us, tzinfo)\<close>: it raises ValueError
  unless every field is in its range (years 1 to 9999, a day that exists in the month).
\<close>

definition new_datetime ::
  "int \<Rightarrow> int \<Rightarrow> int \<Rightarrow> int \<Rightarrow> int \<Rightarrow> int \<Rightarrow> int \<Rightarrow> int option \<Rightarrow> error + datetime" where
  "new_datetime y m d hh mm ss us tz =
     (if 1 \<le> y \<and> y \<le> 9999 \<and> 1 \<le> m \<and> m \<le> 12 \<and> 1 \<le> d \<and> d \<le> days_in_month y m
         \<and> 0 \<le> hh \<and> hh \<le> 23 \<and> 0 \<le> mm \<and> mm \<le> 59 \<and> 0 \<le> ss \<and> ss \<le> 59
         \<and> 0 \<le> us \<and> us \<le> 999999
      then Inr \<lparr>dt_year = y, dt_month = m, dt_day = d, dt_hour = hh, dt_minute = mm,
                dt_second = ss, dt_microsecond = us, dt_tzinfo = tz\<rparr>
      else Inl ValueError)"

text \<open>
  Day number (days since 1970-01-01) to proleptic Gregorian year, month, day, as
  \<^verbatim>\<open>gmtime\<close> computes it.
\<close>

definition civil_from_days :: "int \<Rightarrow> int \<times> int \<times> int" where
  "civil_from_days n =
     (let z = n + 719468;
          era = z div 146097;
          doe = z mod 146097;
          yoe = (doe - doe div 1460 + doe div 36524 - doe div 146096) div 365;
          doy = doe - (365 * yoe + yoe div 4 - yoe div 100);
          mp = (5 * doy + 2) div 153;
          d = doy - (153 * mp + 2) div 5 + 1;
          m = (if mp < 10 then mp + 3 else mp - 9);
          y = yoe + era * 400 + (if m \<le> 2 then 1 else 0)
      in (y, m, d))"

definition round_half_even :: "rat \<Rightarrow> int" where
  "round_half_even x =
     (let f = \<lfloor>x\<rfloor>; r = x - of_int f
      in if r < 1 / 2 then f else if 1 / 2 < r then f + 1 else if even f then f else f + 1)"

text \<open>
  \<^verbatim>\<open>datetime.fromtimestamp(t, tz=timezone.utc)\<close>: the timestamp is rounded to whole
  microseconds (half to even), split into day number and time of day, and passed
  to the constructor, which raises for an instant outside the years 1 to 9999.
  NaN raises ValueError and an infinity OverflowError.
\<close>

fun utc_fromtimestamp :: "pyfloat \<Rightarrow> error + datetime" where
  "utc_fromtimestamp (Fin t) =
     (let us = round_half_even (t * 1000000);
          secs = us div 1000000;
          sod = secs mod 86400
      in case civil_from_days (secs div 86400) of
           (y, m, d) \<Rightarrow>
             new_datetime y m d (sod div 3600) (sod mod 3600 div 60) (sod mod 60)
               (us mod 1000000) (Some 0))"
| "utc_fromtimestamp NaN = Inl ValueError"
| "utc_fromtimestamp PInf = Inl OverflowError"
| "utc_fromtimestamp NInf = Inl OverflowError"

subsection \<open>Reading ISO strings\<close>

text \<open>
  \<^verbatim>\<open>datetime.fromisoformat\<close> with the grammar of Python 3.7 to 3.10, the strict reading
  that the script's replacement of \<^verbatim>\<open>Z\<close> is written for:
  \<^verbatim>\<open>YYYY-MM-DD[*HH[:MM[:SS[.fff[fff]]]][+HH:MM[:SS[.ffffff]]]]\<close>,
  where \<^verbatim>\<open>*\<close> is any single character and the sign of the offset may be \<^verbatim>\<open>-\<close>.
\<close>

fun char_index :: "char \<Rightarrow> string \<Rightarrow> int option" where
  "char_index c [] = None"
| "char_index c (d # ds) =
     (if c = d then Some 0 else map_option (\<lambda>i. i + 1) (char_index c ds))"

text \<open>The value of a decimal digit; \<open>None\<close> for any other character.\<close>

definition digit_of :: "char \<Rightarrow> int option" where
  "digit_of c = char_index c ''0123456789''"

fun parse_digits_acc :: "int \<Rightarrow> string \<Rightarrow> int option" where
  "parse_digits_acc a [] = Some a"
| "parse_digits_acc a (c # cs) =
     (case digit_of c of None \<Rightarrow> None | Some v \<Rightarrow> parse_digits_acc (10 * a + v) cs)"

definition parse_digits :: "string \<Rightarrow> int option" where
  "parse_digits s = (if s = [] then None else parse_digits_acc 0 s)"

definition two_digits :: "string \<Rightarrow> (int \<times> string) option" where
  "two_digits s =
     (case s of
        a # b # r \<Rightarrow>
          (case digit_of a of None \<Rightarrow> None
           | Some x \<Rightarrow> (case digit_of b of None \<Rightarrow> None | Some y \<Rightarrow> Some (10 * x + y, r)))
      | _ \<Rightarrow> None)"

definition parse_fraction :: "string \<Rightarrow> int option" where
  "parse_fraction f =
     (if length f = 3 then map_option (\<lambda>n. n * 1000) (parse_digits f)
      else if length f = 6 then parse_digits f
      else None)"

definition parse_hh_mm_ss_ff :: "string \<Rightarrow> (int \<times> int \<times> int \<times> int) option" where
  "parse_hh_mm_ss_ff s =
     (case two_digits s of None \<Rightarrow> None
      | Some (hh, r1) \<Rightarrow>
         (case r1 of [] \<Rightarrow> Some (hh, 0, 0, 0)
          | c1 # s1 \<Rightarrow>
             if c1 \<noteq> CHR '':'' then None
             else (case two_digits s1 of None \<Rightarrow> None
              | Some (mm, r2) \<Rightarrow>
                 (case r2 of [] \<Rightarrow> Some (hh, mm, 0, 0)
                  | c2 # s2 \<Rightarrow>
                     if c2 \<noteq> CHR '':'' then None
                     else (case two_digits s2 of None \<Rightarrow> None
                      | Some (ss, r3) \<Rightarrow>
                         (case r3 of [] \<Rightarrow> Some (hh, mm, ss, 0)
                          | c3 # f \<Rightarrow>
                             if c3 \<noteq> CHR ''.'' then None
                             else map_option (\<lambda>us. (hh, mm, ss, us)) (parse_fraction f)))))))"

definition is_sign :: "char \<Rightarrow> bool" where
  "is_sign c = (c = CHR ''+'' \<or> c = CHR ''-'')"

text \<open>
  The offset of a \<^verbatim>\<open>timezone\<close> must lie strictly between minus and plus 24 hours.
\<close>

definition parse_tz :: "string \<Rightarrow> int option option" where
  "parse_tz r =
     (case r of [] \<Rightarrow> Some None
      | sg # tzstr \<Rightarrow>
         if length tzstr \<noteq> 5 \<and> length tzstr \<noteq> 8 \<and> length tzstr \<noteq> 15 then None
         else (case parse_hh_mm_ss_ff tzstr of None \<Rightarrow> None
          | Some (h, m, s, us) \<Rightarrow>
             (let off = (if sg = CHR ''-'' then - 1 else 1)
                          * (((h * 60 + m) * 60 + s) * 1000000 + us)
              in if \<bar>off\<bar> < 86400000000 then Some (Some off) else None)))"

definition parse_isoformat_time :: "string \<Rightarrow> ((int \<times> int \<times> int \<times> int) \<times> int option) option" where
  "parse_isoformat_time tstr =
     (case parse_hh_mm_ss_ff (takeWhile (\<lambda>c. \<not> is_sign c) tstr) of None \<Rightarrow> None
      | Some t \<Rightarrow>
         (case parse_tz (dropWhile (\<lambda>c. \<not> is_sign c) tstr) of None \<Rightarrow> None
          | Some tz \<Rightarrow> Some (t, tz)))"

definition parse_isoformat_date :: "string \<Rightarrow> (int \<times> int \<times> int) option" where
  "parse_isoformat_date dstr =
     (if length dstr \<noteq> 10 \<or> dstr ! 4 \<noteq> CHR ''-'' \<or> dstr ! 7 \<noteq> CHR ''-'' then None
      else (case parse_digits (take 4 dstr) of None \<Rightarrow> None
       | Some y \<Rightarrow>
          (case parse_digits (take 2 (drop 5 dstr)) of None \<Rightarrow> None
           | Some m \<Rightarrow>
              (case parse_digits (drop 8 dstr) of None \<Rightarrow> None
               | Some d \<Rightarrow> Some (y, m, d)))))"

definition fromisoformat :: "string \<Rightarrow> error + datetime" where
  "fromisoformat s =
     (case parse_isoformat_date (take 10 s) of None \<Rightarrow> Inl ValueError
      | Some (y, m, d) \<Rightarrow>
         if drop 11 s = [] then new_datetime y m d 0 0 0 0 None
         else (case parse_isoformat_time (drop 11 s) of None \<Rightarrow> Inl ValueError
          | Some ((hh, mm, ss, us), tz) \<Rightarrow> new_datetime y m d hh mm ss us tz))"

section \<open>Timestamp parsing\<close>

text \<open>\<^verbatim>\<open>ts.replace('Z', '+00:00')\<close> replaces every \<^verbatim>\<open>Z\<close> of the string.\<close>

fun replace_Z :: "string \<Rightarrow> string" where
  "replace_Z [] = []"
| "replace_Z (c # cs) = (if c = CHR ''Z'' then ''+00:00'' @ replace_Z cs else c # replace_Z cs)"

text \<open>\<^verbatim>\<open>ts.split('.')[0]\<close>: the text before the first dot.\<close>

definition before_dot :: "string \<Rightarrow> string" where
  "before_dot s = takeWhile (\<lambda>c. c \<noteq> CHR ''.'') s"

text \<open>
  The numeric branch of \<^verbatim>\<open>parse_ts\<close>: \<^verbatim>\<open>if ts > 1e12: ts = ts / 1000.0\<close>, then
  \<^verbatim>\<open>datetime.fromtimestamp(ts, tz=timezone.utc)\<close>.
\<close>

definition parse_ts_num :: "pyfloat \<Rightarrow> error + datetime" where
  "parse_ts_num ts =
     (if flt (Fin (10 ^ 12)) ts
      then (case fdiv ts 1000 of Inl e \<Rightarrow> Inl e | Inr t \<Rightarrow> utc_fromtimestamp t)
      else utc_fromtimestamp ts)"

text \<open>
  \<^verbatim>\<open>parse_ts\<close>. A bool is an instance of \<^verbatim>\<open>int\<close> and takes the numeric branch; an int is
  compared and converted by its exact value.
\<close>

fun parse_ts :: "json \<Rightarrow> error + datetime" where
  "parse_ts (JInt i) = parse_ts_num (Fin (of_int i))"
| "parse_ts (JBool b) = parse_ts_num (Fin (if b then 1 else 0))"
| "parse_ts (JFloat f) = parse_ts_num f"
| "parse_ts (JStr s) =
     (case fromisoformat (replace_Z s) of
        Inr dt \<Rightarrow> Inr dt
      | Inl e \<Rightarrow>
         (case fromisoformat (replace_Z (before_dot s)) of
            Inr dt \<Rightarrow> Inr dt
          | Inl e' \<Rightarrow> Inl ValueError))"
| "parse_ts JNull = Inl ValueError"
| "parse_ts (JList xs) = Inl ValueError"
| "parse_ts (JObj kvs) = Inl ValueError"

section \<open>Record normalisation\<close>

text \<open>
  The three field readers of \<open>main\<close> probe a fixed list of key names in order; the first
  key present in the record wins. A record is the list of the key and value pairs of
  the parsed object.
\<close>

fun first_present :: "string list \<Rightarrow> (string \<times> json) list \<Rightarrow> json option" where
  "first_present [] rec = None"
| "first_present (k # ks) rec =
     (case map_of rec k of Some v \<Rightarrow> Some v | None \<Rightarrow> first_present ks rec)"

definition get_site_id :: "(string \<times> json) list \<Rightarrow> error + json" where
  "get_site_id rec =
     (case first_present [''site_id'', ''siteID'', ''site'', ''SITE_ID'', ''id''] rec of
        Some v \<Rightarrow> Inr v | None \<Rightarrow> Inl KeyError)"

text \<open>\<^verbatim>\<open>get_counts\<close> returns \<^verbatim>\<open>None\<close>, the value of JSON \<^verbatim>\<open>null\<close>, when no key is present.\<close>

definition get_counts :: "(string \<times> json) list \<Rightarrow> json" where
  "get_counts rec =
     (case first_present [''counts'', ''count'', ''COUNT'', ''value''] rec of
        Some v \<Rightarrow> v | None \<Rightarrow> JNull)"

definition get_timestamp :: "(string \<times> json) list \<Rightarrow> error + json" where
  "get_timestamp rec =
     (case first_present [''timestamp'', ''Timestamp'', ''TIMESTAMP'', ''date'', ''DATE''] rec of
        Some v \<Rightarrow> Inr v | None \<Rightarrow> Inl KeyError)"

text \<open>
  The guard \<^verbatim>\<open>cnt is None or not isinstance(cnt, (int, float)) or cnt <= 0\<close>.
  A bool is an instance of \<^verbatim>\<open>int\<close>, with \<^verbatim>\<open>False == 0\<close> and \<^verbatim>\<open>True == 1\<close>.
\<close>

fun count_skipped :: "json \<Rightarrow> bool" where
  "count_skipped JNull = True"
| "count_skipped (JBool b) = (if b then False else True)"
| "count_skipped (JInt i) = (i \<le> 0)"
| "count_skipped (JFloat f) = fle f (Fin 0)"
| "count_skipped (JStr s) = True"
| "count_skipped (JList xs) = True"
| "count_skipped (JObj kvs) = True"

text \<open>
  \<^verbatim>\<open>float(cnt)\<close> for a count that passed the guard (an int, a bool or a float); the
  guard lets no other value reach the conversion.
\<close>

fun py_float :: "json \<Rightarrow> error + pyfloat" where
  "py_float (JInt i) = float_of_int i"
| "py_float (JBool b) = Inr (Fin (if b then 1 else 0))"
| "py_float (JFloat f) = Inr f"
| "py_float JNull = Inl TypeError"
| "py_float (JStr s) = Inl TypeError"
| "py_float (JList xs) = Inl TypeError"
| "py_float (JObj kvs) = Inl TypeError"

text \<open>\<^verbatim>\<open>dt.date().isoformat()\<close>: the fields of the datetime itself, as \<^verbatim>\<open>YYYY-MM-DD\<close>.\<close>

definition digit_char :: "int \<Rightarrow> char" where
  "digit_char n = ''0123456789'' ! nat (n mod 10)"

definition date_isoformat :: "datetime \<Rightarrow> string" where
  "date_isoformat dt =
     [digit_char (dt_year dt div 1000), digit_char (dt_year dt div 100),
      digit_char (dt_year dt div 10), digit_char (dt_year dt), CHR ''-'',
      digit_char (dt_month dt div 10), digit_char (dt_month dt), CHR ''-'',
      digit_char (dt_day dt div 10), digit_char (dt_day dt)]"

type_synonym sample = "json \<times> string \<times> pyfloat"

text \<open>
  The body of the \<^verbatim>\<open>try\<close> block for one element of the data: \<open>Inl e\<close> when it raises,
  \<open>Inr None\<close> when it reaches a \<^verbatim>\<open>continue\<close>, \<open>Inr (Some s)\<close> when it appends \<open>s\<close>.
  An element that is not an object either raises in the key probes or yields no count;
  both ways it is skipped.
\<close>

definition record_body :: "int \<Rightarrow> int \<Rightarrow> json \<Rightarrow> error + sample option" where
  "record_body year month rec =
     (case rec of
        JObj kvs \<Rightarrow>
          (let cnt = get_counts kvs in
           if count_skipped cnt then Inr None
           else (case get_timestamp kvs of Inl e \<Rightarrow> Inl e
            | Inr ts \<Rightarrow>
               (case parse_ts ts of Inl e \<Rightarrow> Inl e
                | Inr dt \<Rightarrow>
                   if dt_year dt \<noteq> year \<or> dt_month dt \<noteq> month then Inr None
                   else (case get_site_id kvs of Inl e \<Rightarrow> Inl e
                    | Inr site_id \<Rightarrow>
                       (case py_float cnt of Inl e \<Rightarrow> Inl e
                        | Inr c \<Rightarrow> Inr (Some (site_id, date_isoformat dt, c)))))))
      | _ \<Rightarrow> Inl TypeError)"

text \<open>The filtering loop with its \<^verbatim>\<open>except Exception: continue\<close>.\<close>

fun filter_records :: "int \<Rightarrow> int \<Rightarrow> json list \<Rightarrow> sample list" where
  "filter_records year month [] = []"
| "filter_records year month (rec # recs) =
     (case record_body year month rec of
        Inr (Some s) \<Rightarrow> s # filter_records year month recs
      | Inr None \<Rightarrow> filter_records year month recs
      | Inl e \<Rightarrow> filter_records year month recs)"

section \<open>Aggregation\<close>

text \<open>
  The accumulators are dictionaries keyed by the tuple \<^verbatim>\<open>(site_id, date_str)\<close>. A
  dictionary finds a key by hash and \<^verbatim>\<open>==\<close>: \<^verbatim>\<open>1\<close>, \<^verbatim>\<open>1.0\<close> and \<^verbatim>\<open>True\<close> are one key, a
  string equals only the same string, \<^verbatim>\<open>None\<close> only itself, and a list or an object
  cannot be hashed (TypeError). \<open>hash_key\<close> maps a site identifier to a canonical form
  on which HOL equality is that key equality.
\<close>

datatype hkey = HNone | HNum pyfloat | HStr string

fun hash_key :: "json \<Rightarrow> error + hkey" where
  "hash_key JNull = Inr HNone"
| "hash_key (JBool b) = Inr (HNum (Fin (if b then 1 else 0)))"
| "hash_key (JInt i) = Inr (HNum (Fin (of_int i)))"
| "hash_key (JFloat f) = Inr (HNum f)"
| "hash_key (JStr s) = Inr (HStr s)"
| "hash_key (JList xs) = Inl TypeError"
| "hash_key (JObj kvs) = Inl TypeError"

type_synonym key = "hkey \<times> string"

text \<open>
  A dictionary keeps its keys in insertion order: an association list, where
  \<open>AList.update\<close> replaces the value of a present key in place and appends a new key.
  \<open>total_of\<close> and \<open>hours_of\<close> are the values a \<^verbatim>\<open>defaultdict\<close> reads, the default for a
  missing key.
\<close>

definition total_of :: "(key \<times> pyfloat) list \<Rightarrow> key \<Rightarrow> pyfloat" where
  "total_of totals k = (case map_of totals k of None \<Rightarrow> Fin 0 | Some t \<Rightarrow> t)"

definition hours_of :: "(key \<times> int) list \<Rightarrow> key \<Rightarrow> int" where
  "hours_of hours k = (case map_of hours k of None \<Rightarrow> 0 | Some h \<Rightarrow> h)"

text \<open>\<^verbatim>\<open>totals[key] += cnt\<close> and \<^verbatim>\<open>hours[key] += 1\<close>.\<close>

definition add_total :: "key \<Rightarrow> pyfloat \<Rightarrow> (key \<times> pyfloat) list \<Rightarrow> (key \<times> pyfloat) list" where
  "add_total k c totals = AList.update k (fadd (total_of totals k) c) totals"

definition add_hour :: "key \<Rightarrow> (key \<times> int) list \<Rightarrow> (key \<times> int) list" where
  "add_hour k hours = AList.update k (hours_of hours k + 1) hours"

text \<open>The loop over \<^verbatim>\<open>filtered\<close>; it is outside every \<^verbatim>\<open>try\<close>, so a TypeError escapes.\<close>

fun accumulate ::
  "sample list \<Rightarrow> (key \<times> pyfloat) list \<Rightarrow> (key \<times> int) list
     \<Rightarrow> error + ((key \<times> pyfloat) list \<times> (key \<times> int) list)" where
  "accumulate [] totals hours = Inr (totals, hours)"
| "accumulate ((site_id, date_str, cnt) # rest) totals hours =
     (case hash_key site_id of
        Inl e \<Rightarrow> Inl e
      | Inr h \<Rightarrow>
          accumulate rest (add_total (h, date_str) cnt totals) (add_hour (h, date_str) hours))"

text \<open>
  The loop that fills \<^verbatim>\<open>site_day_avgs\<close>. Reading \<^verbatim>\<open>hours[key]\<close> from the \<^verbatim>\<open>defaultdict\<close>
  would insert a missing key with the value 0, so \<open>hours\<close> is threaded through.
\<close>

definition read_hours :: "key \<Rightarrow> (key \<times> int) list \<Rightarrow> int \<times> (key \<times> int) list" where
  "read_hours k hours =
     (case map_of hours k of Some h \<Rightarrow> (h, hours) | None \<Rightarrow> (0, hours @ [(k, 0)]))"

fun site_day_loop ::
  "key list \<Rightarrow> (key \<times> pyfloat) list \<Rightarrow> (key \<times> int) list \<Rightarrow> pyfloat list
     \<Rightarrow> error + (pyfloat list \<times> (key \<times> int) list)" where
  "site_day_loop [] totals hours avgs = Inr (avgs, hours)"
| "site_day_loop (k # ks) totals hours avgs =
     (case read_hours k hours of
        (h, hours') \<Rightarrow>
          if 0 < h
          then (case fdiv (total_of totals k) (of_int h) of
                  Inl e \<Rightarrow> Inl e
                | Inr a \<Rightarrow> site_day_loop ks totals hours' (avgs @ [a]))
          else site_day_loop ks totals hours' avgs)"

text \<open>\<^verbatim>\<open>day_to_site_avgs[date_str].append(avg)\<close> on a \<^verbatim>\<open>defaultdict(list)\<close>.\<close>

definition day_values :: "(string \<times> pyfloat list) list \<Rightarrow> string \<Rightarrow> pyfloat list" where
  "day_values days d = (case map_of days d of None \<Rightarrow> [] | Some vs \<Rightarrow> vs)"

definition append_day ::
  "string \<Rightarrow> pyfloat \<Rightarrow> (string \<times> pyfloat list) list \<Rightarrow> (string \<times> pyfloat list) list" where
  "append_day d a days = AList.update d (day_values days d @ [a]) days"

text \<open>The loop over \<^verbatim>\<open>hours.items()\<close> that recomputes each site-day average.\<close>

fun day_loop ::
  "(key \<times> int) list \<Rightarrow> (key \<times> pyfloat) list \<Rightarrow> (string \<times> pyfloat list) list
     \<Rightarrow> error + (string \<times> pyfloat list) list" where
  "day_loop [] totals days = Inr days"
| "day_loop (((site_id, date_str), h) # items) totals days =
     (case fdiv (total_of totals (site_id, date_str)) (of_int h) of
        Inl e \<Rightarrow> Inl e
      | Inr avg \<Rightarrow> day_loop items totals (append_day date_str avg days))"

section \<open>Statistics\<close>

text \<open>
  \<^verbatim>\<open>statistics.mean\<close>: the sum of the data divided by their number; it raises
  StatisticsError on empty data.
\<close>

definition fsum :: "pyfloat list \<Rightarrow> pyfloat" where
  "fsum xs = foldl fadd (Fin 0) xs"

definition mean_py :: "pyfloat list \<Rightarrow> error + pyfloat" where
  "mean_py xs = (if xs = [] then Inl StatisticsError else fdiv (fsum xs) (of_nat (length xs)))"

text \<open>
  \<^verbatim>\<open>min\<close> and \<^verbatim>\<open>max\<close> keep the first extreme element; \<^verbatim>\<open>statistics.median\<close> sorts the
  data and takes the middle element or the mean of the two middle ones. The sort is
  an insertion sort by \<^verbatim>\<open><\<close>, which is the sorted list whenever no NaN is present.
\<close>

fun min_py :: "pyfloat list \<Rightarrow> error + pyfloat" where
  "min_py [] = Inl ValueError"
| "min_py (x # xs) = Inr (foldl (\<lambda>best item. if flt item best then item else best) x xs)"

fun max_py :: "pyfloat list \<Rightarrow> error + pyfloat" where
  "max_py [] = Inl ValueError"
| "max_py (x # xs) = Inr (foldl (\<lambda>best item. if flt best item then item else best) x xs)"

fun insert_sorted :: "pyfloat \<Rightarrow> pyfloat list \<Rightarrow> pyfloat list" where
  "insert_sorted x [] = [x]"
| "insert_sorted x (y # ys) = (if flt x y then x # y # ys else y # insert_sorted x ys)"

definition sorted_py :: "pyfloat list \<Rightarrow> pyfloat list" where
  "sorted_py xs = foldl (\<lambda>acc x. insert_sorted x acc) [] xs"

definition median_py :: "pyfloat list \<Rightarrow> error + pyfloat" where
  "median_py xs =
     (let data = sorted_py xs; n = length data
      in if n = 0 then Inl StatisticsError
         else if n mod 2 = 1 then Inr (data ! (n div 2))
         else fdiv (fadd (data ! (n div 2 - 1)) (data ! (n div 2))) 2)"

text \<open>\<^verbatim>\<open>[mean(day_to_site_avgs[d]) for d in sorted_days]\<close>.\<close>

fun day_means :: "string list \<Rightarrow> (string \<times> pyfloat list) list \<Rightarrow> error + pyfloat list" where
  "day_means [] days = Inr []"
| "day_means (d # ds) days =
     (case mean_py (day_values days d) of
        Inl e \<Rightarrow> Inl e
      | Inr y \<Rightarrow> (case day_means ds days of Inl e \<Rightarrow> Inl e | Inr ys \<Rightarrow> Inr (y # ys)))"

text \<open>
  \<^verbatim>\<open>int(d.split('-')[-1])\<close>: the decimal value of the text after the last hyphen;
  ValueError when that text is not a run of digits.
\<close>

definition last_component :: "string \<Rightarrow> string" where
  "last_component d = rev (takeWhile (\<lambda>c. c \<noteq> CHR ''-'') (rev d))"

fun day_numbers :: "string list \<Rightarrow> error + int list" where
  "day_numbers [] = Inr []"
| "day_numbers (d # ds) =
     (case parse_digits (last_component d) of
        None \<Rightarrow> Inl ValueError
      | Some n \<Rightarrow> (case day_numbers ds of Inl e \<Rightarrow> Inl e | Inr ns \<Rightarrow> Inr (n # ns)))"

section \<open>The program\<close>

text \<open>
  What the program prints and saves. A printed line keeps the values it shows (the
  script formats a float with two decimals); the chart keeps the year and month that
  make its file name and title, and its two series.
\<close>

datatype line =
    NoDataNotice
  | MonthLabel int int
  | SiteDays nat
  | MeanLine pyfloat
  | MedianLine pyfloat
  | MinMaxLine pyfloat pyfloat
  | SavedNotice int int

record chart =
  chart_year :: int
  chart_month :: int
  chart_x :: "int list"
  chart_y :: "pyfloat list"

record outcome =
  printed :: "line list"
  saved :: "chart option"

definition summary_lines :: "int \<Rightarrow> int \<Rightarrow> pyfloat list \<Rightarrow> error + line list" where
  "summary_lines year month avgs =
     (case mean_py avgs of Inl e \<Rightarrow> Inl e
      | Inr mu \<Rightarrow>
         (case median_py avgs of Inl e \<Rightarrow> Inl e
          | Inr med \<Rightarrow>
             (case min_py avgs of Inl e \<Rightarrow> Inl e
              | Inr lo \<Rightarrow>
                 (case max_py avgs of Inl e \<Rightarrow> Inl e
                  | Inr hi \<Rightarrow>
                     Inr [MonthLabel year month, SiteDays (length avgs), MeanLine mu,
                          MedianLine med, MinMaxLine lo hi]))))"

text \<open>
  The day-level aggregation: \<^verbatim>\<open>sorted_days\<close>, \<^verbatim>\<open>y_values\<close> and \<^verbatim>\<open>x_values\<close>. Strings are
  sorted in lexicographic order.
\<close>

definition day_series ::
  "(key \<times> pyfloat) list \<Rightarrow> (key \<times> int) list
     \<Rightarrow> error + (string list \<times> pyfloat list \<times> int list)" where
  "day_series totals hours =
     (case day_loop hours totals [] of Inl e \<Rightarrow> Inl e
      | Inr days \<Rightarrow>
         (case day_means (sort (map fst days)) days of Inl e \<Rightarrow> Inl e
          | Inr y_values \<Rightarrow>
             (case day_numbers (sort (map fst days)) of Inl e \<Rightarrow> Inl e
              | Inr x_values \<Rightarrow> Inr (sort (map fst days), y_values, x_values))))"

text \<open>
  \<open>main\<close> from the parsed data and the two integer arguments on. \<open>Inl e\<close> is an
  exception that leaves \<open>main\<close> (the process ends with a traceback); \<open>Inr out\<close> is a
  normal return.
\<close>

definition main :: "json list \<Rightarrow> int \<Rightarrow> int \<Rightarrow> error + outcome" where
  "main data year month =
     (case accumulate (filter_records year month data) [] [] of Inl e \<Rightarrow> Inl e
      | Inr (totals, hours) \<Rightarrow>
         (case site_day_loop (map fst totals) totals hours [] of Inl e \<Rightarrow> Inl e
          | Inr (site_day_avgs, hours') \<Rightarrow>
             if site_day_avgs = [] then Inr \<lparr>printed = [NoDataNotice], saved = None\<rparr>
             else (case summary_lines year month site_day_avgs of Inl e \<Rightarrow> Inl e
              | Inr lines \<Rightarrow>
                 (case day_series totals hours' of Inl e \<Rightarrow> Inl e
                  | Inr (sorted_days, y_values, x_values) \<Rightarrow>
                     Inr \<lparr>printed = lines @ [SavedNotice year month],
                          saved = Some \<lparr>chart_year = year, chart_month = month,
                                        chart_x = x_values, chart_y = y_values\<rparr>\<rparr>))))"

section \<open>Notions of the specification\<close>

text \<open>
  A site identifier can be a dictionary key when it is \<^verbatim>\<open>null\<close>, a bool, a number or a
  string.
\<close>

definition hashable :: "json \<Rightarrow> bool" where
  "hashable v = (case hash_key v of Inl e \<Rightarrow> False | Inr h \<Rightarrow> True)"

text \<open>The (site, date) key of an accepted sample, and the counts of the samples of a key,
  in input order.\<close>

definition sample_key :: "sample \<Rightarrow> key option" where
  "sample_key s =
     (case hash_key (fst s) of Inl e \<Rightarrow> None | Inr h \<Rightarrow> Some (h, fst (snd s)))"

definition counts_for :: "key \<Rightarrow> sample list \<Rightarrow> pyfloat list" where
  "counts_for k xs = map (\<lambda>s. snd (snd s)) (filter (\<lambda>s. sample_key s = Some k) xs)"

text \<open>The site-day average of the specification: the sum of the counts of a key divided
  by their number.\<close>

definition site_day_average :: "sample list \<Rightarrow> key \<Rightarrow> error + pyfloat" where
  "site_day_average xs k =
     fdiv (fsum (counts_for k xs)) (of_nat (length (counts_for k xs)))"

text \<open>The cross-site day average of the specification: the unweighted mean of the
  site-day averages of the keys of one date.\<close>

definition keys_on :: "string \<Rightarrow> key list \<Rightarrow> key list" where
  "keys_on d ks = filter (\<lambda>k. snd k = d) ks"

fun collect :: "(error + 'a) list \<Rightarrow> error + 'a list" where
  "collect [] = Inr []"
| "collect (x # xs) =
     (case x of
        Inl e \<Rightarrow> Inl e
      | Inr v \<Rightarrow> (case collect xs of Inl e \<Rightarrow> Inl e | Inr vs \<Rightarrow> Inr (v # vs)))"

definition arith_mean :: "pyfloat list \<Rightarrow> error + pyfloat" where
  "arith_mean vs = fdiv (fsum vs) (of_nat (length vs))"

definition cross_site_average :: "sample list \<Rightarrow> key list \<Rightarrow> string \<Rightarrow> error + pyfloat" where
  "cross_site_average xs ks d =
     (case collect (map (site_day_average xs) (keys_on d ks)) of
        Inl e \<Rightarrow> Inl e
      | Inr vs \<Rightarrow> arith_mean vs)"

text \<open>The dates of the accepted samples, and the sites that have a key on a date.\<close>

definition dates_of :: "sample list \<Rightarrow> string set" where
  "dates_of xs = (\<lambda>s. fst (snd s)) ` set xs"

definition sites_on :: "string \<Rightarrow> key list \<Rightarrow> hkey set" where
  "sites_on d ks = fst ` set (keys_on d ks)"

definition is_string :: "json \<Rightarrow> bool" where
  "is_string v = (case v of JStr s \<Rightarrow> True | _ \<Rightarrow> False)"

section \<open>Example inputs\<close>

text \<open>The scenario of the specification: two samples of site A and one of site B on
  2022-07-01.\<close>

definition rec_A1 :: json where
  "rec_A1 = JObj [(''site_id'', JStr ''A''), (''timestamp'', JStr ''2022-07-01T00:00:00Z''),
                  (''count'', JInt 10)]"

definition rec_A2 :: json where
  "rec_A2 = JObj [(''site_id'', JStr ''A''), (''timestamp'', JStr ''2022-07-01T01:00:00Z''),
                  (''count'', JInt 20)]"

definition rec_B :: json where
  "rec_B = JObj [(''site_id'', JStr ''B''), (''timestamp'', JStr ''2022-07-01T00:00:00Z''),
                 (''count'', JInt 100)]"

definition scenario :: "json list" where
  "scenario = [rec_A1, rec_A2, rec_B]"

definition scenario_samples :: "sample list" where
  "scenario_samples =
     [(JStr ''A'', ''2022-07-01'', Fin 10), (JStr ''A'', ''2022-07-01'', Fin 20),
      (JStr ''B'', ''2022-07-01'', Fin 100)]"

text \<open>Two records of one day whose site identifiers are the string \<^verbatim>\<open>"1"\<close> and the
  number \<^verbatim>\<open>1\<close>.\<close>

definition mixed_sites :: "json list" where
  "mixed_sites =
     [JObj [(''site_id'', JStr ''1''), (''timestamp'', JStr ''2022-07-01T00:00:00Z''),
            (''count'', JInt 10)],
      JObj [(''site_id'', JInt 1), (''timestamp'', JStr ''2022-07-01T05:00:00Z''),
            (''count'', JInt 30)]]"




definition rec_july :: "(string \<times> json) list" where
  "rec_july = [(''site_id'', JStr ''A''), (''timestamp'', JStr ''2022-07-01T00:00:00Z''),
               (''count'', JInt 10)]"

section \<open>The claims in the words of the specification\<close>





section \<open>The accumulators of stage 1\<close>

lemma hashable_hash_key: "hashable v \<Longrightarrow> \<exists>h. hash_key v = Inr h"
  by (cases "hash_key v") (simp_all add: hashable_def)

lemma counts_for_Cons:
  "counts_for k (s # xs) = (if sample_key s = Some k then snd (snd s) # counts_for k xs else counts_for k xs)"
  by (simp add: counts_for_def)

lemma counts_for_Nil: "counts_for k [] = []"
  by (simp add: counts_for_def)

lemma total_of_add_total:
  "total_of (add_total k c totals) k' = (if k' = k then fadd (total_of totals k) c else total_of totals k')"
  by (simp add: total_of_def add_total_def update_conv')

lemma hours_of_add_hour:
  "hours_of (add_hour k hours) k' = (if k' = k then hours_of hours k + 1 else hours_of hours k')"
  by (simp add: hours_of_def add_hour_def update_conv')

lemma keys_add_total:
  "map fst (add_total k c totals) = (if k \<in> set (map fst totals) then map fst totals else map fst totals @ [k])"
  by (simp add: add_total_def update_keys)

lemma keys_add_hour:
  "map fst (add_hour k hours) = (if k \<in> set (map fst hours) then map fst hours else map fst hours @ [k])"
  by (simp add: add_hour_def update_keys)

lemma accumulate_returns:
  "list_all (\<lambda>s. hashable (fst s)) xs \<Longrightarrow> \<exists>T' H'. accumulate xs T H = Inr (T', H')"
proof (induction xs arbitrary: T H)
  case Nil
  show ?case by simp
next
  case (Cons s xs)
  obtain site_id date_str cnt where s: "s = (site_id, date_str, cnt)" by (cases s)
  from Cons.prems s obtain h where h: "hash_key site_id = Inr h"
    using hashable_hash_key by auto
  from Cons.prems have "list_all (\<lambda>s. hashable (fst s)) xs" by simp
  from Cons.IH [OF this] show ?case by (simp add: s h)
qed

lemma accumulate_totals:
  "accumulate xs T H = Inr (T', H') \<Longrightarrow> total_of T' k = foldl fadd (total_of T k) (counts_for k xs)"
proof (induction xs arbitrary: T H)
  case Nil
  then show ?case by (simp add: counts_for_Nil)
next
  case (Cons s xs)
  obtain site_id date_str cnt where s: "s = (site_id, date_str, cnt)" by (cases s)
  from Cons.prems s obtain h where h: "hash_key site_id = Inr h"
    and rest: "accumulate xs (add_total (h, date_str) cnt T) (add_hour (h, date_str) H) = Inr (T', H')"
    by (auto split: sum.splits)
  have key: "sample_key (site_id, date_str, cnt) = Some (h, date_str)"
    by (simp add: sample_key_def h)
  show ?case
    using Cons.IH [OF rest] unfolding s
    by (cases "k = (h, date_str)") (simp_all add: counts_for_Cons key total_of_add_total)
qed

lemma accumulate_hours:
  "accumulate xs T H = Inr (T', H') \<Longrightarrow> hours_of H' k = hours_of H k + int (length (counts_for k xs))"
proof (induction xs arbitrary: T H)
  case Nil
  then show ?case by (simp add: counts_for_Nil)
next
  case (Cons s xs)
  obtain site_id date_str cnt where s: "s = (site_id, date_str, cnt)" by (cases s)
  from Cons.prems s obtain h where h: "hash_key site_id = Inr h"
    and rest: "accumulate xs (add_total (h, date_str) cnt T) (add_hour (h, date_str) H) = Inr (T', H')"
    by (auto split: sum.splits)
  have key: "sample_key (site_id, date_str, cnt) = Some (h, date_str)"
    by (simp add: sample_key_def h)
  show ?case
    using Cons.IH [OF rest] unfolding s
    by (cases "k = (h, date_str)") (simp_all add: counts_for_Cons key hours_of_add_hour)
qed

lemma accumulate_same_keys:
  "accumulate xs T H = Inr (T', H') \<Longrightarrow> map fst T = map fst H \<Longrightarrow> map fst T' = map fst H'"
proof (induction xs arbitrary: T H)
  case Nil
  then show ?case by simp
next
  case (Cons s xs)
  obtain site_id date_str cnt where s: "s = (site_id, date_str, cnt)" by (cases s)
  from Cons.prems s obtain h where h: "hash_key site_id = Inr h"
    and rest: "accumulate xs (add_total (h, date_str) cnt T) (add_hour (h, date_str) H) = Inr (T', H')"
    by (auto split: sum.splits)
  have "map fst (add_total (h, date_str) cnt T) = map fst (add_hour (h, date_str) H)"
    using Cons.prems(2) by (simp add: keys_add_total keys_add_hour)
  from Cons.IH [OF rest this] show ?case .
qed

lemma accumulate_distinct:
  "accumulate xs T H = Inr (T', H') \<Longrightarrow> distinct (map fst T) \<Longrightarrow> distinct (map fst T')"
proof (induction xs arbitrary: T H)
  case Nil
  then show ?case by simp
next
  case (Cons s xs)
  obtain site_id date_str cnt where s: "s = (site_id, date_str, cnt)" by (cases s)
  from Cons.prems s obtain h where h: "hash_key site_id = Inr h"
    and rest: "accumulate xs (add_total (h, date_str) cnt T) (add_hour (h, date_str) H) = Inr (T', H')"
    by (auto split: sum.splits)
  have "distinct (map fst (add_total (h, date_str) cnt T))"
    using Cons.prems(2) by (simp add: add_total_def distinct_update)
  from Cons.IH [OF rest this] show ?case .
qed

lemma accumulate_keys:
  "accumulate xs T H = Inr (T', H') \<Longrightarrow> set (map fst T') = set (map fst T) \<union> {k. counts_for k xs \<noteq> []}"
proof (induction xs arbitrary: T H)
  case Nil
  then show ?case by (simp add: counts_for_Nil)
next
  case (Cons s xs)
  obtain site_id date_str cnt where s: "s = (site_id, date_str, cnt)" by (cases s)
  from Cons.prems s obtain h where h: "hash_key site_id = Inr h"
    and rest: "accumulate xs (add_total (h, date_str) cnt T) (add_hour (h, date_str) H) = Inr (T', H')"
    by (auto split: sum.splits)
  have key: "sample_key (site_id, date_str, cnt) = Some (h, date_str)"
    by (simp add: sample_key_def h)
  have "set (map fst (add_total (h, date_str) cnt T)) = insert (h, date_str) (set (map fst T))"
    by (auto simp add: keys_add_total)
  with Cons.IH [OF rest] show ?case unfolding s
    by (auto simp add: counts_for_Cons key)
qed

lemma fdiv_nonzero: "d \<noteq> 0 \<Longrightarrow> \<exists>a. fdiv x d = Inr a"
  by (simp add: fdiv_def)

lemma site_day_loop_all:
  "\<forall>k\<in>set ks. \<exists>h. map_of H k = Some h \<and> 0 < h \<Longrightarrow>
   \<exists>vs. site_day_loop ks T H avgs = Inr (avgs @ vs, H)
      \<and> map Inr vs = map (\<lambda>k. fdiv (total_of T k) (of_int (hours_of H k))) ks"
proof (induction ks arbitrary: avgs)
  case Nil
  show ?case by simp
next
  case (Cons k ks)
  from Cons.prems obtain h where h: "map_of H k = Some h" "0 < h" by auto
  from h(2) obtain a where a: "fdiv (total_of T k) (of_int h) = Inr a"
    using fdiv_nonzero [of "of_int h"] by auto
  from Cons.prems have "\<forall>k\<in>set ks. \<exists>h. map_of H k = Some h \<and> 0 < h" by simp
  from Cons.IH [OF this, of "avgs @ [a]"] obtain vs where
    vs: "site_day_loop ks T H (avgs @ [a]) = Inr ((avgs @ [a]) @ vs, H)"
        "map Inr vs = map (\<lambda>k. fdiv (total_of T k) (of_int (hours_of H k))) ks"
    by blast
  have "site_day_loop (k # ks) T H avgs = Inr (avgs @ (a # vs), H)"
    using h a vs(1) by (simp add: read_hours_def)
  moreover have "map Inr (a # vs) = map (\<lambda>k. fdiv (total_of T k) (of_int (hours_of H k))) (k # ks)"
    using h(1) a vs(2) by (simp add: hours_of_def)
  ultimately show ?case by blast
qed

lemma stage1_summary:
  assumes "list_all (\<lambda>s. hashable (fst s)) filtered"
  obtains T H where
    "accumulate filtered [] [] = Inr (T, H)"
    "map fst T = map fst H"
    "distinct (map fst T)"
    "set (map fst T) = {k. counts_for k filtered \<noteq> []}"
    "\<And>k. total_of T k = fsum (counts_for k filtered)"
    "\<And>k. hours_of H k = int (length (counts_for k filtered))"
    "\<forall>k\<in>set (map fst T). \<exists>h. map_of H k = Some h \<and> 0 < h"
proof -
  from accumulate_returns [OF assms] obtain T H where
    acc: "accumulate filtered [] [] = Inr (T, H)" by blast
  have keys: "map fst T = map fst H"
    using accumulate_same_keys [OF acc] by simp
  have dist: "distinct (map fst T)"
    using accumulate_distinct [OF acc] by simp
  have dom: "set (map fst T) = {k. counts_for k filtered \<noteq> []}"
    using accumulate_keys [OF acc] by simp
  have tot: "total_of T k = fsum (counts_for k filtered)" for k
    using accumulate_totals [OF acc, of k] by (simp add: total_of_def fsum_def)
  have hrs: "hours_of H k = int (length (counts_for k filtered))" for k
    using accumulate_hours [OF acc, of k] by (simp add: hours_of_def)
  have pos: "\<forall>k\<in>set (map fst T). \<exists>h. map_of H k = Some h \<and> 0 < h"
  proof
    fix k assume k: "k \<in> set (map fst T)"
    then have "k \<in> fst ` set H" using keys by simp
    then obtain h where h: "map_of H k = Some h"
      using map_of_eq_None_iff [of H k] by (cases "map_of H k") auto
    then have "hours_of H k = h" by (simp add: hours_of_def)
    moreover have "counts_for k filtered \<noteq> []" using k dom by simp
    ultimately have "0 < h" using hrs [of k] by (cases "counts_for k filtered") auto
    with h show "\<exists>h. map_of H k = Some h \<and> 0 < h" by blast
  qed
  from acc keys dist dom tot hrs pos show thesis by (rule that)
qed

section \<open>Stage 1: site-day averages\<close>



text \<open>
  Claim C8. For every key of the sum accumulator the count accumulator holds a count
  of at least 1, so the division that computes the site-day average does not raise
  ZeroDivisionError, and the guard \<^verbatim>\<open>if h > 0\<close> skips no key: the loop returns one
  average for each key and leaves \<open>hours\<close> as it was.
\<close>

theorem hours_at_least_one:
  assumes "list_all (\<lambda>s. hashable (fst s)) filtered"
  shows "\<exists>totals hours avgs.
           accumulate filtered [] [] = Inr (totals, hours)
         \<and> (\<forall>k\<in>set (map fst totals). \<exists>h. map_of hours k = Some h \<and> 1 \<le> h
               \<and> fdiv (total_of totals k) (of_int h) \<noteq> Inl ZeroDivisionError)
         \<and> site_day_loop (map fst totals) totals hours [] = Inr (avgs, hours)
         \<and> length avgs = length totals"
proof -
  from stage1_summary [OF assms] obtain T H where
    acc: "accumulate filtered [] [] = Inr (T, H)"
    and pos: "\<forall>k\<in>set (map fst T). \<exists>h. map_of H k = Some h \<and> 0 < h"
    by metis
  from site_day_loop_all [OF pos, of T "[]"] obtain vs where
    loop: "site_day_loop (map fst T) T H [] = Inr (vs, H)"
    and vs: "map Inr vs = map (\<lambda>k. fdiv (total_of T k) (of_int (hours_of H k))) (map fst T)"
    by auto
  have len: "length vs = length T"
    using arg_cong [OF vs, of length] by simp
  have all: "\<forall>k\<in>set (map fst T). \<exists>h. map_of H k = Some h \<and> 1 \<le> h
          \<and> fdiv (total_of T k) (of_int h) \<noteq> Inl ZeroDivisionError"
  proof
    fix k assume "k \<in> set (map fst T)"
    with pos obtain h where h: "map_of H k = Some h" "0 < h" by blast
    then have "fdiv (total_of T k) (of_int h) \<noteq> Inl ZeroDivisionError"
      by (simp add: fdiv_def)
    with h show "\<exists>h. map_of H k = Some h \<and> 1 \<le> h
          \<and> fdiv (total_of T k) (of_int h) \<noteq> Inl ZeroDivisionError" by auto
  qed
  show ?thesis
    by (rule exI [of _ T], rule exI [of _ H], rule exI [of _ vs])
       (intro conjI acc all loop len)
qed

theorem hours_at_least_one_witness:
  "list_all (\<lambda>s. hashable (fst s)) scenario_samples
   \<and> (\<exists>totals hours avgs.
           accumulate scenario_samples [] [] = Inr (totals, hours)
         \<and> (\<forall>k\<in>set (map fst totals). \<exists>h. map_of hours k = Some h \<and> 1 \<le> h
               \<and> fdiv (total_of totals k) (of_int h) \<noteq> Inl ZeroDivisionError)
         \<and> site_day_loop (map fst totals) totals hours [] = Inr (avgs, hours)
         \<and> length avgs = length totals)"
proof -
  have h: "list_all (\<lambda>s. hashable (fst s)) scenario_samples"
    by (simp add: scenario_samples_def hashable_def)
  from h hours_at_least_one [OF h] show ?thesis by (rule conjI)
qed

section \<open>The empty result\<close>

text \<open>
  Claim C7. When no sample is accepted for the requested month, \<open>main\<close> returns
  normally having printed the no-data notice and nothing else: no statistics line is
  printed and no chart is saved.
\<close>

theorem no_samples_only_notice:
  assumes "filter_records year month data = []"
  shows "main data year month = Inr \<lparr>printed = [NoDataNotice], saved = None\<rparr>"
  using assms by (simp add: main_def)

theorem no_samples_only_notice_witness:
  "filter_records 2022 8 scenario = []
   \<and> main scenario 2022 8 = Inr \<lparr>printed = [NoDataNotice], saved = None\<rparr>"
proof -
  have h: "filter_records 2022 8 scenario = []" by code_simp
  from h no_samples_only_notice [OF h] show ?thesis by (rule conjI)
qed

section \<open>Record normalisation: the month filter\<close>

lemma record_body_Some:
  "record_body year month rec = Inr (Some s) \<Longrightarrow>
   \<exists>kvs ts dt sid c. rec = JObj kvs \<and> \<not> count_skipped (get_counts kvs)
      \<and> get_timestamp kvs = Inr ts \<and> parse_ts ts = Inr dt
      \<and> dt_year dt = year \<and> dt_month dt = month
      \<and> get_site_id kvs = Inr sid \<and> py_float (get_counts kvs) = Inr c
      \<and> s = (sid, date_isoformat dt, c)"
  by (auto simp add: record_body_def Let_def split: json.splits sum.splits if_splits)

lemma filter_records_mem:
  "s \<in> set (filter_records year month data)
   \<longleftrightarrow> (\<exists>rec\<in>set data. record_body year month rec = Inr (Some s))"
  by (induction data) (auto split: sum.splits option.splits)

lemma new_datetime_month:
  "new_datetime y m d hh mm ss us tz = Inr dt \<Longrightarrow> 1 \<le> dt_month dt \<and> dt_month dt \<le> 12"
  by (auto simp add: new_datetime_def split: if_splits)

lemma utc_fromtimestamp_month:
  "utc_fromtimestamp t = Inr dt \<Longrightarrow> 1 \<le> dt_month dt \<and> dt_month dt \<le> 12"
  by (cases t) (auto simp add: Let_def split: prod.splits dest: new_datetime_month)

lemma fromisoformat_month:
  "fromisoformat s = Inr dt \<Longrightarrow> 1 \<le> dt_month dt \<and> dt_month dt \<le> 12"
  unfolding fromisoformat_def
  by (auto split: option.splits prod.splits if_splits dest: new_datetime_month)

lemma parse_ts_num_month:
  "parse_ts_num t = Inr dt \<Longrightarrow> 1 \<le> dt_month dt \<and> dt_month dt \<le> 12"
  unfolding parse_ts_num_def
  by (auto split: if_splits sum.splits dest: utc_fromtimestamp_month)

lemma parse_ts_month:
  "parse_ts ts = Inr dt \<Longrightarrow> 1 \<le> dt_month dt \<and> dt_month dt \<le> 12"
  by (cases ts) (auto split: sum.splits dest: parse_ts_num_month fromisoformat_month)

text \<open>
  Claim C6. Every accepted sample, and so every record that contributes to a site-day
  average, comes from a record of the data whose timestamp parses to a datetime with
  the requested year and the requested month, and carries the date of that datetime;
  a record whose timestamp parses to another year or month is rejected.
\<close>

theorem accepted_records_in_requested_month:
  "(s \<in> set (filter_records year month data) \<longrightarrow>
      (\<exists>kvs ts dt. JObj kvs \<in> set data \<and> get_timestamp kvs = Inr ts \<and> parse_ts ts = Inr dt
         \<and> dt_year dt = year \<and> dt_month dt = month \<and> fst (snd s) = date_isoformat dt))
   \<and> (get_timestamp kvs' = Inr ts' \<and> parse_ts ts' = Inr dt'
        \<and> (dt_year dt' \<noteq> year \<or> dt_month dt' \<noteq> month)
      \<longrightarrow> filter_records year month [JObj kvs'] = [])"
proof (intro conjI impI)
  assume "s \<in> set (filter_records year month data)"
  then obtain r where r: "r \<in> set data" "record_body year month r = Inr (Some s)"
    using filter_records_mem by blast
  from record_body_Some [OF r(2)] r(1)
  show "\<exists>kvs ts dt. JObj kvs \<in> set data \<and> get_timestamp kvs = Inr ts \<and> parse_ts ts = Inr dt
         \<and> dt_year dt = year \<and> dt_month dt = month \<and> fst (snd s) = date_isoformat dt"
    by auto
next
  assume "get_timestamp kvs' = Inr ts' \<and> parse_ts ts' = Inr dt'
        \<and> (dt_year dt' \<noteq> year \<or> dt_month dt' \<noteq> month)"
  then show "filter_records year month [JObj kvs'] = []"
    by (auto simp add: record_body_def Let_def)
qed

theorem accepted_records_in_requested_month_witness:
  "((JStr ''A'', ''2022-07-01'', Fin 10) \<in> set (filter_records 2022 7 scenario)
     \<and> (\<exists>kvs ts dt. JObj kvs \<in> set scenario \<and> get_timestamp kvs = Inr ts
           \<and> parse_ts ts = Inr dt \<and> dt_year dt = 2022 \<and> dt_month dt = 7
           \<and> fst (snd (JStr ''A'', ''2022-07-01'', Fin 10)) = date_isoformat dt))
   \<and> (get_timestamp rec_july = Inr (JStr ''2022-07-01T00:00:00Z'')
        \<and> parse_ts (JStr ''2022-07-01T00:00:00Z'')
            = Inr \<lparr>dt_year = 2022, dt_month = 7, dt_day = 1, dt_hour = 0, dt_minute = 0,
                    dt_second = 0, dt_microsecond = 0, dt_tzinfo = Some 0\<rparr>
        \<and> dt_month \<lparr>dt_year = 2022, dt_month = 7, dt_day = 1, dt_hour = 0, dt_minute = 0,
                    dt_second = 0, dt_microsecond = 0, dt_tzinfo = Some 0\<rparr> \<noteq> 8
        \<and> filter_records 2022 8 [JObj rec_july] = [])"
proof -
  have h1: "(JStr ''A'', ''2022-07-01'', Fin 10) \<in> set (filter_records 2022 7 scenario)"
    by code_simp
  have g: "get_timestamp rec_july = Inr (JStr ''2022-07-01T00:00:00Z'')"
    by code_simp
  have p: "parse_ts (JStr ''2022-07-01T00:00:00Z'')
            = Inr \<lparr>dt_year = 2022, dt_month = 7, dt_day = 1, dt_hour = 0, dt_minute = 0,
                    dt_second = 0, dt_microsecond = 0, dt_tzinfo = Some 0\<rparr>"
    by code_simp
  have m: "dt_month \<lparr>dt_year = 2022, dt_month = 7, dt_day = 1, dt_hour = 0, dt_minute = 0,
                    dt_second = 0, dt_microsecond = 0, dt_tzinfo = Some 0\<rparr> \<noteq> 8"
    by simp
  have h2: "get_timestamp rec_july = Inr (JStr ''2022-07-01T00:00:00Z'')
        \<and> parse_ts (JStr ''2022-07-01T00:00:00Z'')
            = Inr \<lparr>dt_year = 2022, dt_month = 7, dt_day = 1, dt_hour = 0, dt_minute = 0,
                    dt_second = 0, dt_microsecond = 0, dt_tzinfo = Some 0\<rparr>
        \<and> (dt_year \<lparr>dt_year = 2022, dt_month = 7, dt_day = 1, dt_hour = 0, dt_minute = 0,
                    dt_second = 0, dt_microsecond = 0, dt_tzinfo = Some 0\<rparr> \<noteq> 2022
           \<or> dt_month \<lparr>dt_year = 2022, dt_month = 7, dt_day = 1, dt_hour = 0, dt_minute = 0,
                    dt_second = 0, dt_microsecond = 0, dt_tzinfo = Some 0\<rparr> \<noteq> 8)"
    by (intro conjI disjI2 g p m)
  note c1 = accepted_records_in_requested_month
    [where s = "(JStr ''A'', ''2022-07-01'', Fin 10)" and year = 2022 and month = 7
       and data = scenario, THEN conjunct1, THEN mp, OF h1]
  note c2 = accepted_records_in_requested_month
    [where year = 2022 and month = 8 and kvs' = rec_july
       and ts' = "JStr ''2022-07-01T00:00:00Z''"
       and dt' = "\<lparr>dt_year = 2022, dt_month = 7, dt_day = 1, dt_hour = 0, dt_minute = 0,
                    dt_second = 0, dt_microsecond = 0, dt_tzinfo = Some 0\<rparr>",
     THEN conjunct2, THEN mp, OF h2]
  show ?thesis by (intro conjI h1 c1 c2 g p m)
qed

text \<open>
  Claim C9. For a month argument outside 1 to 12 the filter accepts no record, and
  \<open>main\<close> returns normally with the no-data notice: the argument is neither rejected
  nor the cause of an exception.
\<close>

theorem out_of_range_month_no_matches:
  assumes "month < 1 \<or> 12 < month"
  shows "filter_records year month data = []
       \<and> main data year month = Inr \<lparr>printed = [NoDataNotice], saved = None\<rparr>"
proof -
  have "s \<notin> set (filter_records year month data)" for s
  proof
    assume "s \<in> set (filter_records year month data)"
    then obtain r where "record_body year month r = Inr (Some s)"
      using filter_records_mem by blast
    from record_body_Some [OF this] obtain ts dt where
      "parse_ts ts = Inr dt" "dt_month dt = month" by auto
    with parse_ts_month [of ts dt] assms show False by auto
  qed
  then have e: "filter_records year month data = []"
    by (cases "filter_records year month data") auto
  then show ?thesis by (simp add: main_def)
qed

theorem out_of_range_month_no_matches_witness:
  "((13::int) < 1 \<or> 12 < (13::int))
   \<and> filter_records 2022 13 scenario = []
   \<and> main scenario 2022 13 = Inr \<lparr>printed = [NoDataNotice], saved = None\<rparr>"
proof -
  have h: "(13::int) < 1 \<or> 12 < (13::int)" by simp
  from h out_of_range_month_no_matches [OF h, of 2022 scenario] show ?thesis by (rule conjI)
qed

section \<open>Record normalisation: the count\<close>






section \<open>Timestamp parsing: numbers\<close>










section \<open>Timestamp parsing: strings\<close>




end
